theory Spec2Isabelle
  imports Complex_Main "HOL-Library.Log_Nat"
begin

section \<open>The policy engine of StockSageBot (src/app.py)\<close>

text \<open>
  The reinforcement-learning fragment of \<^verbatim>\<open>src/app.py\<close> (lines 14 to 34, and the
  four lines of each caller that drive it) is embedded here function by function.

  \<^item> A Python float is a binary64 number. For the claims about which branch runs,
    which entries are read and written and by which formula, a float is modelled
    by the real number it denotes and the arithmetic is exact (\<open>update_q\<close>). For
    the claims whose truth depends on the rounding of line 34 or on overflow, the
    same function is modelled over binary64 itself (\<open>update_q_b64\<close>): every
    operation rounds to nearest with ties to even, overflows to an infinity and
    propagates NaN.
  \<^item> A state key is a pair of numbers, an action one of the three strings of the
    list \<^verbatim>\<open>actions\<close>.
  \<^item> A row of the table is a Python \<^verbatim>\<open>dict\<close> from action to value. A dict
    iterates in insertion order and \<^verbatim>\<open>max\<close> keeps the first maximal element,
    so a row is an association list in insertion order.
  \<^item> The table \<^verbatim>\<open>q_table\<close> is a global dict from state key to row; the order of
    its keys is never observed, so it is a map. Functions that read or write the
    global take the table and return it.
  \<^item> The globals \<^verbatim>\<open>alpha\<close>, \<^verbatim>\<open>gamma\<close> and \<^verbatim>\<open>epsilon\<close> are read at each
    call; they are the fields of a configuration record.
  \<^item> The two draws of the random generator, \<^verbatim>\<open>random.uniform(0, 1)\<close> and the
    index behind \<^verbatim>\<open>random.choice\<close>, are arguments of the function that draws.
  \<^item> An exception is a value of type \<open>error\<close>, returned with the table as it was
    when the exception was raised.
\<close>

subsection \<open>Data\<close>

datatype action = Buy | Sell | Hold

datatype error = KeyError | ValueError | IndexError

type_synonym state = "real \<times> real"

type_synonym row = "(action \<times> real) list"

type_synonym q_table = "state \<rightharpoonup> row"

record config =
  alpha :: real
  gamma :: real
  epsilon :: real

text \<open>Lines 15 to 19: the action list, the empty table and the three constants.\<close>

definition actions :: "action list" where
  "actions = [Buy, Sell, Hold]"

definition initial_q_table :: q_table where
  "initial_q_table = Map.empty"

definition default_config :: config where
  "default_config = \<lparr>alpha = 1 / 10, gamma = 9 / 10, epsilon = 2 / 10\<rparr>"

subsection \<open>The operations of Python the source uses\<close>

text \<open>
  \<^verbatim>\<open>round(x, n)\<close> on a float rounds the exact value of \<open>x\<close> to \<open>n\<close> decimal places,
  a tie going to the even neighbour.
\<close>

definition round_half_even :: "real \<Rightarrow> int" where
  "round_half_even x =
     (let f = \<lfloor>x\<rfloor>; d = x - of_int f
      in if d < 1 / 2 then f
         else if 1 / 2 < d then f + 1
         else if even f then f else f + 1)"

definition py_round :: "real \<Rightarrow> nat \<Rightarrow> real" where
  "py_round x n = of_int (round_half_even (x * 10 ^ n)) / 10 ^ n"

text \<open>
  \<^verbatim>\<open>max(xs, key=f)\<close>: the first element is the candidate, and a later element
  replaces it only when its key is strictly greater. On an empty sequence
  \<^verbatim>\<open>max\<close> raises \<^verbatim>\<open>ValueError\<close>.
\<close>

fun max_from :: "('a \<Rightarrow> real) \<Rightarrow> 'a \<Rightarrow> 'a list \<Rightarrow> 'a" where
  "max_from f best [] = best"
| "max_from f best (x # xs) = max_from f (if f best < f x then x else best) xs"

definition py_max :: "('a \<Rightarrow> real) \<Rightarrow> 'a list \<Rightarrow> error + 'a" where
  "py_max f xs = (case xs of [] \<Rightarrow> Inl ValueError | x # rest \<Rightarrow> Inr (max_from f x rest))"

text \<open>\<^verbatim>\<open>d[k]\<close> raises \<^verbatim>\<open>KeyError\<close> on a missing key.\<close>

fun dict_get :: "(action \<times> 'v) list \<Rightarrow> action \<Rightarrow> error + 'v" where
  "dict_get [] k = Inl KeyError"
| "dict_get ((k', v) # kvs) k = (if k' = k then Inr v else dict_get kvs k)"

text \<open>\<^verbatim>\<open>d[k] = v\<close> overwrites in place, and appends a key that is new.\<close>

fun dict_set :: "(action \<times> 'v) list \<Rightarrow> action \<Rightarrow> 'v \<Rightarrow> (action \<times> 'v) list" where
  "dict_set [] k v = [(k, v)]"
| "dict_set ((k', v') # kvs) k v =
     (if k' = k then (k, v) # kvs else (k', v') # dict_set kvs k v)"

text \<open>
  \<^verbatim>\<open>random.choice(xs)\<close> returns \<open>xs[i]\<close> for an index \<open>i\<close> below \<open>len(xs)\<close>
  that the generator draws, and raises \<^verbatim>\<open>IndexError\<close> on an empty list. The
  draw is the natural number \<open>k\<close>, reduced below the length.
\<close>

definition random_choice :: "nat \<Rightarrow> 'a list \<Rightarrow> error + 'a" where
  "random_choice k xs = (if xs = [] then Inl IndexError else Inr (xs ! (k mod length xs)))"

subsection \<open>The functions of the source\<close>

text \<open>Lines 21 and 22.\<close>

definition get_state :: "real \<Rightarrow> real \<Rightarrow> state" where
  "get_state score price_change = (py_round score 1, py_round price_change 2)"

text \<open>
  Lines 24 to 27. \<open>u\<close> is the value of \<^verbatim>\<open>random.uniform(0, 1)\<close> and \<open>k\<close> the draw
  of \<^verbatim>\<open>random.choice\<close>. \<^verbatim>\<open>max(q_table[state], key=q_table[state].get)\<close> runs over
  the keys of the row and compares the values stored with them, that is, it runs
  over the items and returns the key of the chosen one.
\<close>

definition choose_action ::
  "config \<Rightarrow> real \<Rightarrow> nat \<Rightarrow> state \<Rightarrow> q_table \<Rightarrow> (error + action) \<times> q_table" where
  "choose_action cfg u k state q =
     (if u < epsilon cfg \<or> state \<notin> dom q then (random_choice k actions, q)
      else case q state of
             None \<Rightarrow> (Inl KeyError, q)
           | Some r \<Rightarrow> (map_sum id fst (py_max snd r), q))"

text \<open>Lines 30 and 31: the row of a new state.\<close>

definition zero_row :: row where
  "zero_row = map (\<lambda>a. (a, 0)) actions"

definition ensure_row :: "state \<Rightarrow> q_table \<Rightarrow> q_table" where
  "ensure_row state q = (if state \<notin> dom q then q(state \<mapsto> zero_row) else q)"

text \<open>Lines 29 to 34.\<close>

definition update_q ::
  "config \<Rightarrow> state \<Rightarrow> action \<Rightarrow> real \<Rightarrow> q_table \<Rightarrow> (error + unit) \<times> q_table" where
  "update_q cfg state act reward q =
     (let q1 = ensure_row state q in
      case q1 state of
        None \<Rightarrow> (Inl KeyError, q1)
      | Some r \<Rightarrow>
          (case dict_get r act of
             Inl e \<Rightarrow> (Inl e, q1)
           | Inr old \<Rightarrow>
               (case py_max id (map snd r) of
                  Inl e \<Rightarrow> (Inl e, q1)
                | Inr future \<Rightarrow>
                    (Inr (),
                     q1(state \<mapsto>
                        dict_set r act
                          (old + alpha cfg * (reward + gamma cfg * future - old)))))))"

text \<open>
  Lines 89 and 107: the reward the two callers compute, the same expression in
  \<^verbatim>\<open>analyze_sentiment\<close> and in \<^verbatim>\<open>handle_chat\<close>.
\<close>

definition reward_of :: "action \<Rightarrow> real \<Rightarrow> real" where
  "reward_of act price_change =
     (if act = Buy then price_change else if act = Sell then - price_change else 0)"

text \<open>
  Lines 87 to 90 of \<^verbatim>\<open>analyze_sentiment\<close> and lines 105 to 108 of \<^verbatim>\<open>handle_chat\<close>:
  encode the state, choose, compute the reward, update. The two callers differ
  only in where the score and the price change come from. An exception of a
  callee ends the caller.
\<close>

definition policy_step ::
  "config \<Rightarrow> real \<Rightarrow> nat \<Rightarrow> real \<Rightarrow> real \<Rightarrow> q_table \<Rightarrow> (error + action) \<times> q_table" where
  "policy_step cfg u k score price_change q =
     (let state = get_state score price_change in
      case choose_action cfg u k state q of
        (Inl e, q1) \<Rightarrow> (Inl e, q1)
      | (Inr act, q1) \<Rightarrow>
          (case update_q cfg state act (reward_of act price_change) q1 of
             (Inl e, q2) \<Rightarrow> (Inl e, q2)
           | (Inr _, q2) \<Rightarrow> (Inr act, q2)))"

subsection \<open>Binary64 arithmetic\<close>

text \<open>
  \<open>Fin m e\<close> is the finite double of value \<open>m * 2 ^ e\<close>, written in the one form
  binary64 stores: zero is \<open>Fin 0 (- 1074)\<close>, a normal number has
  \<open>2 ^ 52 \<le> \<bar>m\<bar> < 2 ^ 53\<close> and \<open>- 1074 \<le> e \<le> 971\<close>, a subnormal one has
  \<open>\<bar>m\<bar> < 2 ^ 52\<close> and \<open>e = - 1074\<close>. The sign of a zero is not kept: Python's
  \<^verbatim>\<open>==\<close>, \<^verbatim>\<open>>\<close>, \<^verbatim>\<open>+\<close>, \<^verbatim>\<open>-\<close> and \<^verbatim>\<open>*\<close> give equal results on \<^verbatim>\<open>0.0\<close> and
  \<^verbatim>\<open>-0.0\<close> up to that sign, and the source has no division.
\<close>

datatype b64 = Fin int int | PInf | NInf | NaN

text \<open>The integer nearest to \<open>p / q\<close> for \<open>0 < q\<close>, a tie going to the even one.\<close>

definition rhe_div :: "int \<Rightarrow> int \<Rightarrow> int" where
  "rhe_div p q =
     (let f = p div q; r = p mod q
      in if 2 * r < q then f
         else if q < 2 * r then f + 1
         else if even f then f else f + 1)"

text \<open>
  The integer \<open>l\<close> with \<open>2 ^ l \<le> p / q < 2 ^ (l + 1)\<close>, for positive \<open>p\<close> and \<open>q\<close>:
  the difference of the bit lengths or one less.
\<close>

definition ilog2_frac :: "int \<Rightarrow> int \<Rightarrow> int" where
  "ilog2_frac p q =
     (let d = bitlen p - bitlen q
      in if (if 0 \<le> d then q * 2 ^ nat d \<le> p else q \<le> p * 2 ^ nat (- d)) then d else d - 1)"

text \<open>
  The double nearest to \<open>p / q * 2 ^ e\<close> (\<open>0 < q\<close>), ties to even. The unit in the
  last place is \<open>2 ^ t\<close>, with \<open>t\<close> 52 below the binary exponent of the value and
  not below \<open>- 1074\<close>; the value is rounded to a multiple \<open>m\<close> of that unit. A
  significand that rounds up to \<open>2 ^ 53\<close> is rewritten as \<open>2 ^ 52\<close> with the next
  exponent, and a result of \<open>2 ^ 1024\<close> or more in magnitude is an infinity.
\<close>

definition b64_round :: "int \<Rightarrow> int \<Rightarrow> int \<Rightarrow> b64" where
  "b64_round p q e =
     (if p = 0 then Fin 0 (- 1074)
      else let t = max (ilog2_frac \<bar>p\<bar> q + e - 52) (- 1074);
               k = t - e;
               m = (if 0 \<le> k then rhe_div p (q * 2 ^ nat k) else rhe_div (p * 2 ^ nat (- k)) q);
               m' = (if \<bar>m\<bar> = 2 ^ 53 then m div 2 else m);
               t' = (if \<bar>m\<bar> = 2 ^ 53 then t + 1 else t)
           in if m' = 0 then Fin 0 (- 1074)
              else if 971 < t' then (if 0 < m' then PInf else NInf)
              else Fin m' t')"

text \<open>A decimal literal \<open>p / q\<close> of the source, as Python reads it.\<close>

definition b64_of_frac :: "int \<Rightarrow> int \<Rightarrow> b64" where
  "b64_of_frac p q = b64_round p q 0"

text \<open>The real value of \<open>Fin m e\<close>.\<close>

definition dyadic :: "int \<Rightarrow> int \<Rightarrow> real" where
  "dyadic m e = (if 0 \<le> e then of_int m * 2 ^ nat e else of_int m / 2 ^ nat (- e))"

text \<open>
  \<^verbatim>\<open>*\<close>, \<^verbatim>\<open>+\<close> and \<^verbatim>\<open>-\<close> on floats: the exact result of two finite operands is
  rounded; an infinity times zero and the sum of opposite infinities are NaN.
\<close>

fun b64_mul :: "b64 \<Rightarrow> b64 \<Rightarrow> b64" where
  "b64_mul NaN y = NaN"
| "b64_mul x NaN = NaN"
| "b64_mul (Fin a d) (Fin b e) = b64_round (a * b) 1 (d + e)"
| "b64_mul (Fin a d) PInf = (if a = 0 then NaN else if 0 < a then PInf else NInf)"
| "b64_mul (Fin a d) NInf = (if a = 0 then NaN else if 0 < a then NInf else PInf)"
| "b64_mul PInf (Fin b e) = (if b = 0 then NaN else if 0 < b then PInf else NInf)"
| "b64_mul NInf (Fin b e) = (if b = 0 then NaN else if 0 < b then NInf else PInf)"
| "b64_mul PInf PInf = PInf"
| "b64_mul PInf NInf = NInf"
| "b64_mul NInf PInf = NInf"
| "b64_mul NInf NInf = PInf"

fun b64_add :: "b64 \<Rightarrow> b64 \<Rightarrow> b64" where
  "b64_add NaN y = NaN"
| "b64_add x NaN = NaN"
| "b64_add (Fin a d) (Fin b e) =
     (let l = min d e in b64_round (a * 2 ^ nat (d - l) + b * 2 ^ nat (e - l)) 1 l)"
| "b64_add (Fin a d) y = y"
| "b64_add x (Fin b e) = x"
| "b64_add PInf PInf = PInf"
| "b64_add NInf NInf = NInf"
| "b64_add PInf NInf = NaN"
| "b64_add NInf PInf = NaN"

fun b64_neg :: "b64 \<Rightarrow> b64" where
  "b64_neg (Fin a d) = Fin (- a) d"
| "b64_neg PInf = NInf"
| "b64_neg NInf = PInf"
| "b64_neg NaN = NaN"

definition b64_sub :: "b64 \<Rightarrow> b64 \<Rightarrow> b64" where
  "b64_sub x y = b64_add x (b64_neg y)"

text \<open>\<^verbatim>\<open>x < y\<close> on floats; every comparison with NaN is false.\<close>

fun b64_less :: "b64 \<Rightarrow> b64 \<Rightarrow> bool" where
  "b64_less NaN y = False"
| "b64_less x NaN = False"
| "b64_less (Fin a d) (Fin b e) =
     (let l = min d e in a * 2 ^ nat (d - l) < b * 2 ^ nat (e - l))"
| "b64_less x NInf = False"
| "b64_less PInf y = False"
| "b64_less NInf y = True"
| "b64_less x PInf = True"

text \<open>
  \<^verbatim>\<open>max(xs)\<close> on floats: a later element replaces the candidate when it is
  greater, that is, when the candidate is less than it.
\<close>

fun b64_max_from :: "b64 \<Rightarrow> b64 list \<Rightarrow> b64" where
  "b64_max_from best [] = best"
| "b64_max_from best (x # xs) = b64_max_from (if b64_less best x then x else best) xs"

definition b64_py_max :: "b64 list \<Rightarrow> error + b64" where
  "b64_py_max xs = (case xs of [] \<Rightarrow> Inl ValueError | x # rest \<Rightarrow> Inr (b64_max_from x rest))"

subsection \<open>Lines 29 to 34 in binary64\<close>

text \<open>
  The table holds doubles; the integer \<^verbatim>\<open>0\<close> of a new row is the double zero
  (an int and a float compare and add by value). The globals \<^verbatim>\<open>alpha\<close> and
  \<^verbatim>\<open>gamma\<close> are the doubles their literals denote.
\<close>

type_synonym b64_row = "(action \<times> b64) list"

type_synonym b64_table = "state \<rightharpoonup> b64_row"

record b64_config =
  alpha_b64 :: b64
  gamma_b64 :: b64

definition default_b64_config :: b64_config where
  "default_b64_config = \<lparr>alpha_b64 = b64_of_frac 1 10, gamma_b64 = b64_of_frac 9 10\<rparr>"

definition b64_zero :: b64 where
  "b64_zero = Fin 0 (- 1074)"

definition zero_row_b64 :: b64_row where
  "zero_row_b64 = map (\<lambda>a. (a, b64_zero)) actions"

definition ensure_row_b64 :: "state \<Rightarrow> b64_table \<Rightarrow> b64_table" where
  "ensure_row_b64 state q = (if state \<notin> dom q then q(state \<mapsto> zero_row_b64) else q)"

text \<open>The parenthesis of line 34, \<^verbatim>\<open>reward + gamma * future - old\<close>.\<close>

definition td_error_b64 :: "b64_config \<Rightarrow> b64 \<Rightarrow> b64 \<Rightarrow> b64 \<Rightarrow> b64" where
  "td_error_b64 cfg old reward future =
     b64_sub (b64_add reward (b64_mul (gamma_b64 cfg) future)) old"

definition update_q_b64 ::
  "b64_config \<Rightarrow> state \<Rightarrow> action \<Rightarrow> b64 \<Rightarrow> b64_table \<Rightarrow> (error + unit) \<times> b64_table" where
  "update_q_b64 cfg state act reward q =
     (let q1 = ensure_row_b64 state q in
      case q1 state of
        None \<Rightarrow> (Inl KeyError, q1)
      | Some r \<Rightarrow>
          (case dict_get r act of
             Inl e \<Rightarrow> (Inl e, q1)
           | Inr old \<Rightarrow>
               (case b64_py_max (map snd r) of
                  Inl e \<Rightarrow> (Inl e, q1)
                | Inr future \<Rightarrow>
                    (Inr (),
                     q1(state \<mapsto>
                        dict_set r act
                          (b64_add old
                             (b64_mul (alpha_b64 cfg) (td_error_b64 cfg old reward future))))))))"

text \<open>
  A sequence of calls of \<^verbatim>\<open>update_q\<close>, each on the table the previous one left;
  an exception ends the sequence.
\<close>

fun update_q_b64_calls ::
  "b64_config \<Rightarrow> (state \<times> action \<times> b64) list \<Rightarrow> b64_table \<Rightarrow> (error + unit) \<times> b64_table" where
  "update_q_b64_calls cfg [] q = (Inr (), q)"
| "update_q_b64_calls cfg ((state, act, reward) # calls) q =
     (case update_q_b64 cfg state act reward q of
        (Inl e, q1) \<Rightarrow> (Inl e, q1)
      | (Inr _, q1) \<Rightarrow> update_q_b64_calls cfg calls q1)"

text \<open>
  \<open>is_b64 m e\<close>: \<open>Fin m e\<close> is the stored form of a double. A table is well formed
  when its rows are complete and its finite values are doubles.
\<close>

definition is_b64 :: "int \<Rightarrow> int \<Rightarrow> bool" where
  "is_b64 m e \<longleftrightarrow>
     (m = 0 \<and> e = - 1074) \<or>
     (m \<noteq> 0 \<and> - 1074 \<le> e \<and> e \<le> 971 \<and> \<bar>m\<bar> < 2 ^ 53 \<and> (2 ^ 52 \<le> \<bar>m\<bar> \<or> e = - 1074))"

fun b64_ok :: "b64 \<Rightarrow> bool" where
  "b64_ok (Fin m e) = is_b64 m e"
| "b64_ok x = True"

fun is_fin :: "b64 \<Rightarrow> bool" where
  "is_fin (Fin m e) = True"
| "is_fin x = False"

definition b64_table_ok :: "b64_table \<Rightarrow> bool" where
  "b64_table_ok q = (\<forall>s r. q s = Some r \<longrightarrow> map fst r = actions \<and> list_all b64_ok (map snd r))"

text \<open>
  A call in which the parenthesis of line 34 is a finite double (neither an
  infinity nor NaN), and a sequence of calls each of which is such a call on the
  table it runs on.
\<close>

definition call_finite :: "b64_config \<Rightarrow> state \<Rightarrow> action \<Rightarrow> b64 \<Rightarrow> b64_table \<Rightarrow> bool" where
  "call_finite cfg state act reward q =
     (case ensure_row_b64 state q state of
        None \<Rightarrow> False
      | Some r \<Rightarrow>
          (case dict_get r act of
             Inl e \<Rightarrow> False
           | Inr old \<Rightarrow>
               (case b64_py_max (map snd r) of
                  Inl e \<Rightarrow> False
                | Inr future \<Rightarrow> is_fin (td_error_b64 cfg old reward future))))"

fun calls_finite ::
  "b64_config \<Rightarrow> (state \<times> action \<times> b64) list \<Rightarrow> b64_table \<Rightarrow> bool" where
  "calls_finite cfg [] q = True"
| "calls_finite cfg ((state, act, reward) # calls) q =
     (call_finite cfg state act reward q \<and>
      calls_finite cfg calls (snd (update_q_b64 cfg state act reward q)))"

subsection \<open>The invariant of the table\<close>

text \<open>
  A row is complete when its keys are the three actions in the order of the list
  \<^verbatim>\<open>actions\<close>. Only line 31 creates a row and only line 34 writes into one, so
  every row of every table the program reaches is complete.
\<close>

definition complete_row :: "row \<Rightarrow> bool" where
  "complete_row r = (map fst r = actions)"

definition complete_table :: "q_table \<Rightarrow> bool" where
  "complete_table q = (\<forall>s r. q s = Some r \<longrightarrow> complete_row r)"

text \<open>The tables the program can hold: the empty one, and what a call of
  \<^verbatim>\<open>update_q\<close> leaves (\<^verbatim>\<open>choose_action\<close> writes nothing).\<close>

inductive reachable :: "config \<Rightarrow> q_table \<Rightarrow> bool" for cfg :: config where
  start: "reachable cfg initial_q_table"
| step: "reachable cfg q \<Longrightarrow> reachable cfg (snd (update_q cfg s a reward q))"

section \<open>Auxiliary facts\<close>

subsection \<open>Rounding\<close>

lemma round_half_even_close: "\<bar>of_int (round_half_even x) - x\<bar> \<le> 1 / 2"
  unfolding round_half_even_def Let_def by (auto; linarith)

lemma round_half_even_tie:
  "\<bar>of_int (round_half_even x) - x\<bar> = 1 / 2 \<Longrightarrow> even (round_half_even x)"
  unfolding round_half_even_def Let_def by (auto split: if_splits; linarith)

subsection \<open>Complete rows and tables\<close>

lemma complete_row_iff:
  "complete_row r \<longleftrightarrow> (\<exists>b s h. r = [(Buy, b), (Sell, s), (Hold, h)])"
  by (auto simp: complete_row_def actions_def Cons_eq_map_conv)

lemma complete_zero_row: "complete_row zero_row"
  by (simp add: complete_row_def zero_row_def comp_def)

lemma complete_dict_set: "complete_row r \<Longrightarrow> complete_row (dict_set r a v)"
  by (cases a) (auto simp: complete_row_iff)

lemma complete_tableD: "complete_table q \<Longrightarrow> q s = Some r \<Longrightarrow> complete_row r"
  unfolding complete_table_def by blast

lemma complete_table_upd:
  "complete_table q \<Longrightarrow> complete_row r \<Longrightarrow> complete_table (q(s \<mapsto> r))"
  unfolding complete_table_def by (simp add: fun_upd_def)

lemma complete_table_empty: "complete_table initial_q_table"
  by (simp add: complete_table_def initial_q_table_def)

lemma complete_table_ensure_row:
  "complete_table q \<Longrightarrow> complete_table (ensure_row s q)"
  by (auto simp: complete_table_def ensure_row_def complete_zero_row)

lemma ensure_row_Some: "\<exists>r. ensure_row s q s = Some r"
  by (auto simp: ensure_row_def)

lemma ensure_row_lookup:
  "ensure_row s q s = Some (case q s of None \<Rightarrow> zero_row | Some r \<Rightarrow> r)"
  by (auto simp: ensure_row_def split: option.splits)

lemma ensure_row_upd: "(ensure_row s q)(s \<mapsto> r) = q(s \<mapsto> r)"
  by (auto simp: ensure_row_def)

subsection \<open>One update on a complete row\<close>

lemma update_q_on_row:
  assumes "ensure_row s q s = Some [(Buy, b), (Sell, sl), (Hold, h)]"
  shows "update_q cfg s a reward q =
     (Inr (), q(s \<mapsto> dict_set [(Buy, b), (Sell, sl), (Hold, h)] a
        ((case a of Buy \<Rightarrow> b | Sell \<Rightarrow> sl | Hold \<Rightarrow> h) + alpha cfg *
           (reward + gamma cfg * Max {b, sl, h} -
            (case a of Buy \<Rightarrow> b | Sell \<Rightarrow> sl | Hold \<Rightarrow> h)))))"
proof -
  have m: "max_from id b [sl, h] = Max {b, sl, h}"
    by (simp add: max_def)
  have g: "dict_get [(Buy, b), (Sell, sl), (Hold, h)] a =
      Inr (case a of Buy \<Rightarrow> b | Sell \<Rightarrow> sl | Hold \<Rightarrow> h)"
    by (cases a) simp_all
  show ?thesis
    unfolding update_q_def Let_def assms
    by (simp only: option.case list.map snd_conv py_max_def list.case sum.case g m
        ensure_row_upd)
qed

lemma ensure_row_complete:
  assumes "complete_table q"
  obtains b sl h where "ensure_row s q s = Some [(Buy, b), (Sell, sl), (Hold, h)]"
proof -
  have c: "complete_table (ensure_row s q)"
    using assms by (rule complete_table_ensure_row)
  obtain r where r: "ensure_row s q s = Some r"
    using ensure_row_Some by blast
  with c have "complete_row r"
    by (rule complete_tableD)
  then obtain b sl h where "r = [(Buy, b), (Sell, sl), (Hold, h)]"
    by (auto simp: complete_row_iff)
  with r that show thesis
    by simp
qed

lemma update_q_complete:
  assumes "complete_table q"
  shows "complete_table (snd (update_q cfg s a reward q))"
proof -
  obtain b sl h where e: "ensure_row s q s = Some [(Buy, b), (Sell, sl), (Hold, h)]"
    using assms by (rule ensure_row_complete)
  have "complete_row (dict_set [(Buy, b), (Sell, sl), (Hold, h)] a v)" for v
    by (rule complete_dict_set) (simp add: complete_row_iff)
  then show ?thesis
    using assms by (simp add: update_q_on_row [OF e] complete_table_upd)
qed

lemma reachable_complete: "reachable cfg q \<Longrightarrow> complete_table q"
  by (induction rule: reachable.induct) (simp_all add: complete_table_empty update_q_complete)

subsection \<open>The greedy choice on a complete row\<close>


subsection \<open>Evaluating binary64 operations\<close>

lemma bitlen_One: "bitlen 1 = 1"
  by (subst compute_bitlen) simp

lemma bitlen_Bit0: "bitlen (numeral (Num.Bit0 n)) = bitlen (numeral n) + 1"
  by (subst compute_bitlen) simp

lemma bitlen_Bit1: "bitlen (numeral (Num.Bit1 n)) = bitlen (numeral n) + 1"
  by (subst compute_bitlen) simp

lemma bitlen_Num1: "bitlen (numeral Num.One) = 1"
  by (simp add: bitlen_One)

lemmas bitlen_numeral = bitlen_One bitlen_Num1 bitlen_Bit0 bitlen_Bit1

lemma b64_round_zero: "b64_round 0 q e = Fin 0 (- 1074)"
  by (simp add: b64_round_def)

lemma b64_round_finite:
  assumes "p \<noteq> 0" and "ilog2_frac \<bar>p\<bar> q = l" and "max (l + e - 52) (- 1074) = t"
    and "(if 0 \<le> t - e then rhe_div p (q * 2 ^ nat (t - e))
          else rhe_div (p * 2 ^ nat (- (t - e))) q) = m"
    and "\<bar>m\<bar> \<noteq> 2 ^ 53" and "m \<noteq> 0" and "t \<le> 971"
  shows "b64_round p q e = Fin m t"
  unfolding b64_round_def Let_def assms(2) assms(3) assms(4)
  using assms(1,5,6,7) by simp

lemma b64_round_overflow:
  assumes "p \<noteq> 0" and "ilog2_frac \<bar>p\<bar> q = l" and "max (l + e - 52) (- 1074) = t"
    and "(if 0 \<le> t - e then rhe_div p (q * 2 ^ nat (t - e))
          else rhe_div (p * 2 ^ nat (- (t - e))) q) = m"
    and "\<bar>m\<bar> \<noteq> 2 ^ 53" and "0 < m" and "971 < t"
  shows "b64_round p q e = PInf"
  unfolding b64_round_def Let_def assms(2) assms(3) assms(4)
  using assms(1,5,6,7) by simp

lemma lit_alpha: "b64_of_frac 1 10 = Fin 7205759403792794 (- 56)"
  unfolding b64_of_frac_def
  by (rule b64_round_finite [where l = "- 4"])
    (simp_all add: ilog2_frac_def rhe_div_def bitlen_numeral)

lemma lit_gamma: "b64_of_frac 9 10 = Fin 8106479329266893 (- 53)"
  unfolding b64_of_frac_def
  by (rule b64_round_finite [where l = "- 1"])
    (simp_all add: ilog2_frac_def rhe_div_def bitlen_numeral)

lemma lit_reward: "b64_of_frac 137 10000 = Fin 7897512306556902 (- 59)"
  unfolding b64_of_frac_def
  by (rule b64_round_finite [where l = "- 7"])
    (simp_all add: ilog2_frac_def rhe_div_def bitlen_numeral)

lemma lit_score: "b64_of_frac 42 100 = Fin 7566047373982433 (- 54)"
  unfolding b64_of_frac_def
  by (rule b64_round_finite [where l = "- 2"])
    (simp_all add: ilog2_frac_def rhe_div_def bitlen_numeral)

lemma lit_claimed: "b64_of_frac 137 100000 = Fin 6318009845245521 (- 62)"
  unfolding b64_of_frac_def
  by (rule b64_round_finite [where l = "- 10"])
    (simp_all add: ilog2_frac_def rhe_div_def bitlen_numeral)

lemma product: "b64_mul (Fin 7205759403792794 (- 56)) (Fin 7897512306556902 (- 59)) =
    Fin 6318009845245522 (- 62)"
  unfolding b64_mul.simps
  by (rule b64_round_finite [where l = 105])
    (simp_all add: ilog2_frac_def rhe_div_def bitlen_numeral)


text \<open>
  Two known facts of binary64 that the operations reproduce: \<open>0.1 + 0.2\<close> is the
  double above \<open>0.3\<close>, and the greatest finite double added to itself is
  infinite.
\<close>

lemma b64_point_one_plus_point_two:
  "b64_add (b64_of_frac 1 10) (b64_of_frac 2 10) = Fin 5404319552844596 (- 54) \<and>
   b64_of_frac 3 10 = Fin 5404319552844595 (- 54)"
proof -
  have "b64_of_frac 2 10 = Fin 7205759403792794 (- 55)"
    unfolding b64_of_frac_def
    by (rule b64_round_finite [where l = "- 3"])
      (simp_all add: ilog2_frac_def rhe_div_def bitlen_numeral)
  moreover have "b64_add (Fin 7205759403792794 (- 56)) (Fin 7205759403792794 (- 55)) =
      Fin 5404319552844596 (- 54)"
    unfolding b64_add.simps Let_def
    by (rule b64_round_finite [where l = 54])
      (simp_all add: ilog2_frac_def rhe_div_def bitlen_numeral)
  moreover have "b64_of_frac 3 10 = Fin 5404319552844595 (- 54)"
    unfolding b64_of_frac_def
    by (rule b64_round_finite [where l = "- 2"])
      (simp_all add: ilog2_frac_def rhe_div_def bitlen_numeral)
  ultimately show ?thesis
    by (simp only: lit_alpha)
qed

lemma b64_greatest_doubled:
  "b64_add (Fin 9007199254740991 971) (Fin 9007199254740991 971) = PInf"
  unfolding b64_add.simps Let_def
  by (rule b64_round_overflow [where l = 53 and t = 972 and m = 9007199254740991])
    (simp_all add: ilog2_frac_def rhe_div_def bitlen_numeral)

subsection \<open>An update with learning rate zero, in binary64\<close>

lemma rhe_div_exact: "0 < c \<Longrightarrow> rhe_div (m * c) c = m"
  by (simp add: rhe_div_def)

lemma ilog2_frac_one:
  assumes "0 < p"
  shows "ilog2_frac p 1 = bitlen p - 1"
proof -
  have "1 \<le> bitlen p"
    using assms bitlen_eq_zero_iff [of p] bitlen_nonneg [of p] by linarith
  moreover have "2 ^ nat (bitlen p - 1) \<le> p"
    using bitlen_bounds [OF assms] by simp
  ultimately show ?thesis
    by (simp add: ilog2_frac_def bitlen_One)
qed

lemma b64_add_zero:
  assumes "is_b64 m e"
  shows "b64_add (Fin m e) (Fin 0 (- 1074)) = Fin m e"
proof (cases "m = 0")
  case True
  with assms have "e = - 1074"
    by (simp add: is_b64_def)
  with True show ?thesis
    by (simp add: b64_round_zero)
next
  case False
  with assms have e: "- 1074 \<le> e" "e \<le> 971" and m: "\<bar>m\<bar> < 2 ^ 53"
    and n: "2 ^ 52 \<le> \<bar>m\<bar> \<or> e = - 1074"
    by (simp_all add: is_b64_def)
  define j where "j = nat (e + 1074)"
  have j: "int j = e + 1074"
    using e by (simp add: j_def)
  have pos: "0 < \<bar>m\<bar>"
    using False by simp
  have le: "bitlen \<bar>m\<bar> \<le> 53"
    using m by (simp add: bitlen_le_iff_power)
  have t: "max (bitlen \<bar>m\<bar> + int j - 1 + - 1074 - 52) (- 1074) = e"
  proof (cases "2 ^ 52 \<le> \<bar>m\<bar>")
    case True
    then have "53 \<le> bitlen \<bar>m\<bar>"
      by (simp add: bitlen_ge_iff_power)
    with le have "bitlen \<bar>m\<bar> = 53"
      by simp
    then show ?thesis
      using e j by simp
  next
    case False
    with n have "e = - 1074"
      by simp
    then show ?thesis
      using le j by simp
  qed
  have l: "ilog2_frac \<bar>m * 2 ^ j\<bar> 1 = bitlen \<bar>m\<bar> + int j - 1"
    using pos by (simp add: abs_mult ilog2_frac_one bitlen_pow2)
  have r: "b64_round (m * 2 ^ j) 1 (- 1074) = Fin m e"
  proof (rule b64_round_finite [OF _ l t])
    show "m * 2 ^ j \<noteq> 0"
      using False by simp
    show "(if 0 \<le> e - - 1074 then rhe_div (m * 2 ^ j) (1 * 2 ^ nat (e - - 1074))
        else rhe_div (m * 2 ^ j * 2 ^ nat (- (e - - 1074))) 1) = m"
      using e by (simp add: j_def rhe_div_exact)
    show "\<bar>m\<bar> \<noteq> 2 ^ 53"
      using m by simp
    show "m \<noteq> 0"
      by (rule False)
    show "e \<le> 971"
      by (rule e)
  qed
  have "min e (- 1074) = - 1074"
    using e by simp
  then show ?thesis
    using r by (simp add: j_def)
qed

lemma b64_mul_zero_fin: "b64_mul (Fin 0 d) (Fin b e) = Fin 0 (- 1074)"
  by (simp add: b64_round_zero)

lemma b64_sub_fin: "b64_sub x y = Fin m e \<Longrightarrow> \<exists>a d. y = Fin a d"
  by (cases x; cases y) (simp_all add: b64_sub_def)

lemma b64_rows:
  "map fst r = actions \<longleftrightarrow> (\<exists>b sl h. r = [(Buy, b), (Sell, sl), (Hold, h)])"
  by (auto simp: actions_def Cons_eq_map_conv)

lemma b64_table_ok_ensure: "b64_table_ok q \<Longrightarrow> b64_table_ok (ensure_row_b64 s q)"
  by (auto simp: b64_table_ok_def ensure_row_b64_def zero_row_b64_def b64_zero_def
      is_b64_def actions_def)

lemma ensure_row_b64_Some: "\<exists>r. ensure_row_b64 s q s = Some r"
  by (auto simp: ensure_row_b64_def)

lemma ensure_row_b64_keeps: "q t = Some r \<Longrightarrow> ensure_row_b64 s q t = Some r"
  by (auto simp: ensure_row_b64_def)

lemma ensure_row_b64_fresh:
  "q t = None \<Longrightarrow> ensure_row_b64 s q t = None \<or> ensure_row_b64 s q t = Some zero_row_b64"
  by (auto simp: ensure_row_b64_def)

lemma update_q_b64_alpha_zero:
  assumes "alpha_b64 cfg = Fin 0 (- 1074)" and "b64_table_ok q"
    and "call_finite cfg s a reward q"
  shows "update_q_b64 cfg s a reward q = (Inr (), ensure_row_b64 s q)"
proof -
  obtain r where r: "ensure_row_b64 s q s = Some r"
    using ensure_row_b64_Some by blast
  have "b64_table_ok (ensure_row_b64 s q)"
    using assms(2) by (rule b64_table_ok_ensure)
  with r have k: "map fst r = actions" and v: "list_all b64_ok (map snd r)"
    unfolding b64_table_ok_def by blast+
  from k obtain b sl h where f: "r = [(Buy, b), (Sell, sl), (Hold, h)]"
    unfolding b64_rows by blast
  define old where "old = (case a of Buy \<Rightarrow> b | Sell \<Rightarrow> sl | Hold \<Rightarrow> h)"
  have g: "dict_get r a = Inr old"
    unfolding f old_def by (cases a) simp_all
  have ok: "b64_ok old"
    using v unfolding f old_def by (cases a) simp_all
  obtain future where mx: "b64_py_max (map snd r) = Inr future"
    unfolding f by (simp add: b64_py_max_def)
  have "is_fin (td_error_b64 cfg old reward future)"
    using assms(3) by (simp add: call_finite_def r g mx)
  then obtain tm te where td: "td_error_b64 cfg old reward future = Fin tm te"
    by (cases "td_error_b64 cfg old reward future") simp_all
  then obtain om oe where o: "old = Fin om oe"
    unfolding td_error_b64_def using b64_sub_fin by blast
  with ok have "is_b64 om oe"
    by simp
  then have "b64_add (Fin om oe) (Fin 0 (- 1074)) = Fin om oe"
    by (rule b64_add_zero)
  then have "b64_add old (b64_mul (alpha_b64 cfg) (td_error_b64 cfg old reward future)) = old"
    unfolding td assms(1) b64_mul_zero_fin unfolding o .
  moreover have "dict_set r a old = r"
    unfolding f old_def by (cases a) simp_all
  ultimately have "update_q_b64 cfg s a reward q = (Inr (), (ensure_row_b64 s q)(s \<mapsto> r))"
    by (simp add: update_q_b64_def r g mx)
  also have "(ensure_row_b64 s q)(s \<mapsto> r) = ensure_row_b64 s q"
    using r by (rule map_upd_triv)
  finally show ?thesis .
qed

subsection \<open>The operations of the scenarios\<close>

lemma b64_add_fin_commute: "b64_add (Fin a d) (Fin b e) = b64_add (Fin b e) (Fin a d)"
  by (simp add: min.commute add.commute)

lemma b64_zero_add:
  "is_b64 m e \<Longrightarrow> b64_add (Fin 0 (- 1074)) (Fin m e) = Fin m e"
  by (subst b64_add_fin_commute) (rule b64_add_zero)

lemma b64_sub_zero: "is_b64 m e \<Longrightarrow> b64_sub (Fin m e) (Fin 0 (- 1074)) = Fin m e"
  unfolding b64_sub_def b64_neg.simps minus_zero by (rule b64_add_zero)

lemma b64_mul_fin_zero: "b64_mul (Fin a d) (Fin 0 e) = Fin 0 (- 1074)"
  by (simp add: b64_round_zero)

lemma scenario_update:
  "update_q_b64 default_b64_config s Buy (b64_of_frac 137 10000) Map.empty =
     (Inr (), [s \<mapsto> [(Buy, Fin 6318009845245522 (- 62)), (Sell, Fin 0 (- 1074)),
        (Hold, Fin 0 (- 1074))]])"
proof -
  have r: "is_b64 7897512306556902 (- 59)"
    by (simp add: is_b64_def)
  have p: "is_b64 6318009845245522 (- 62)"
    by (simp add: is_b64_def)
  have td: "td_error_b64 default_b64_config (Fin 0 (- 1074)) (Fin 7897512306556902 (- 59))
      (Fin 0 (- 1074)) = Fin 7897512306556902 (- 59)"
    unfolding td_error_b64_def b64_mul_fin_zero default_b64_config_def lit_gamma
      b64_config.simps b64_add_zero [OF r]
    by (rule b64_sub_zero [OF r])
  have new: "b64_add (Fin 0 (- 1074))
      (b64_mul (alpha_b64 default_b64_config)
        (td_error_b64 default_b64_config (Fin 0 (- 1074)) (Fin 7897512306556902 (- 59))
          (Fin 0 (- 1074)))) = Fin 6318009845245522 (- 62)"
    unfolding td unfolding default_b64_config_def lit_alpha b64_config.simps product
    by (rule b64_zero_add [OF p])
  show ?thesis
    unfolding update_q_b64_def lit_reward
    by (simp add: ensure_row_b64_def zero_row_b64_def b64_zero_def actions_def b64_py_max_def
        new del: b64_add.simps b64_mul.simps)
qed

lemma lit_table_value: "b64_of_frac (17 * 10 ^ 307) 1 = Fin 8517715530038134 971"
  unfolding b64_of_frac_def
  by (rule b64_round_finite [where l = 1023])
    (simp_all add: ilog2_frac_def rhe_div_def bitlen_numeral)

lemma lit_big_reward: "b64_of_frac (10 ^ 308) 1 = Fin 5010420900022432 971"
  unfolding b64_of_frac_def
  by (rule b64_round_finite [where l = 1023])
    (simp_all add: ilog2_frac_def rhe_div_def bitlen_numeral)

lemma gamma_future:
  "b64_mul (Fin 8106479329266893 (- 53)) (Fin 8517715530038134 971) =
     Fin 7665943977034321 971"
  unfolding b64_mul.simps
  by (rule b64_round_finite [where l = 105])
    (simp_all add: ilog2_frac_def rhe_div_def bitlen_numeral)

lemma reward_plus_overflows:
  "b64_add (Fin 5010420900022432 971) (Fin 7665943977034321 971) = PInf"
  unfolding b64_add.simps Let_def
  by (rule b64_round_overflow [where l = 53 and t = 972 and m = 6338182438528376])
    (simp_all add: ilog2_frac_def rhe_div_def bitlen_numeral)

lemma gamma_one:
  "b64_mul (Fin 8106479329266893 (- 53)) (Fin 4503599627370496 (- 52)) =
     Fin 8106479329266893 (- 53)"
  unfolding b64_mul.simps
  by (rule b64_round_finite [where l = 104])
    (simp_all add: ilog2_frac_def rhe_div_def bitlen_numeral)

lemma gamma_minus_one:
  "b64_sub (Fin 8106479329266893 (- 53)) (Fin 4503599627370496 (- 52)) =
     Fin (- 7205759403792792) (- 56)"
  unfolding b64_sub_def b64_neg.simps b64_add.simps Let_def
  by (rule b64_round_finite [where l = 49])
    (simp_all add: ilog2_frac_def rhe_div_def bitlen_numeral)

section \<open>The claims\<close>

text \<open>
  C1. On a table whose rows are complete, \<^verbatim>\<open>update_q\<close> raises nothing. It first
  gives an absent state the row of three zeros; with \<open>b\<close>, \<open>sl\<close>, \<open>h\<close> the values of
  Buy, Sell and Hold in the row of that same state, \<open>old\<close> the value of the action
  and \<open>future\<close> the greatest of the three, it then stores
  \<open>new = old + alpha * (reward + gamma * future - old)\<close> for the action: the row
  of the state after the call has the three keys in their order, \<open>new\<close> at the
  action and the old values at the two others, and the rows of the other states
  are as they were. The defaults are \<open>alpha = 0.1\<close> and \<open>gamma = 0.9\<close>.
\<close>

theorem update_q_formula:
  assumes "complete_table q"
  shows "\<exists>b sl h old new.
      ensure_row s q s = Some [(Buy, b), (Sell, sl), (Hold, h)] \<and>
      (s \<notin> dom q \<longrightarrow> b = 0 \<and> sl = 0 \<and> h = 0) \<and>
      (s \<in> dom q \<longrightarrow> q s = Some [(Buy, b), (Sell, sl), (Hold, h)]) \<and>
      old = (case a of Buy \<Rightarrow> b | Sell \<Rightarrow> sl | Hold \<Rightarrow> h) \<and>
      new = old + alpha cfg * (reward + gamma cfg * Max {b, sl, h} - old) \<and>
      update_q cfg s a reward q =
        (Inr (), q(s \<mapsto> dict_set [(Buy, b), (Sell, sl), (Hold, h)] a new)) \<and>
      dict_set [(Buy, b), (Sell, sl), (Hold, h)] a new =
        [(Buy, if a = Buy then new else b), (Sell, if a = Sell then new else sl),
         (Hold, if a = Hold then new else h)] \<and>
      (\<forall>a'. dict_get (dict_set [(Buy, b), (Sell, sl), (Hold, h)] a new) a' =
         Inr (if a' = a then new else case a' of Buy \<Rightarrow> b | Sell \<Rightarrow> sl | Hold \<Rightarrow> h)) \<and>
      (\<forall>t. t \<noteq> s \<longrightarrow> snd (update_q cfg s a reward q) t = q t) \<and>
      alpha default_config = 1 / 10 \<and> gamma default_config = 9 / 10"
proof -
  obtain b sl h where e: "ensure_row s q s = Some [(Buy, b), (Sell, sl), (Hold, h)]"
    using assms by (rule ensure_row_complete)
  define old where "old = (case a of Buy \<Rightarrow> b | Sell \<Rightarrow> sl | Hold \<Rightarrow> h)"
  define new where "new = old + alpha cfg * (reward + gamma cfg * Max {b, sl, h} - old)"
  have z: "s \<notin> dom q \<longrightarrow> b = 0 \<and> sl = 0 \<and> h = 0"
    using e unfolding ensure_row_lookup by (auto simp: domIff zero_row_def actions_def)
  have p: "s \<in> dom q \<longrightarrow> q s = Some [(Buy, b), (Sell, sl), (Hold, h)]"
    using e unfolding ensure_row_lookup by (auto simp: domIff)
  have u: "update_q cfg s a reward q =
      (Inr (), q(s \<mapsto> dict_set [(Buy, b), (Sell, sl), (Hold, h)] a new))"
    unfolding new_def old_def by (rule update_q_on_row [OF e])
  have d: "dict_set [(Buy, b), (Sell, sl), (Hold, h)] a new =
      [(Buy, if a = Buy then new else b), (Sell, if a = Sell then new else sl),
       (Hold, if a = Hold then new else h)]"
    by (cases a) simp_all
  have g: "dict_get (dict_set [(Buy, b), (Sell, sl), (Hold, h)] a new) a' =
      Inr (if a' = a then new else case a' of Buy \<Rightarrow> b | Sell \<Rightarrow> sl | Hold \<Rightarrow> h)" for a'
    by (cases a; cases a') simp_all
  have o: "t \<noteq> s \<longrightarrow> snd (update_q cfg s a reward q) t = q t" for t
    unfolding u by simp
  have c: "alpha default_config = 1 / 10 \<and> gamma default_config = 9 / 10"
    by (simp add: default_config_def)
  show ?thesis
    using e z p old_def new_def u d g o c
    by (intro exI [of _ b] exI [of _ sl] exI [of _ h] exI [of _ old] exI [of _ new]) blast
qed

theorem update_q_formula_witness:
  "update_q default_config (0, 0) Buy 1 initial_q_table =
     (Inr (), [(0, 0) \<mapsto> [(Buy, 1 / 10), (Sell, 0), (Hold, 0)]]) \<and>
   update_q default_config (0, 0) Sell 1 [(0, 0) \<mapsto> [(Buy, 2), (Sell, 1), (Hold, 3)]] =
     (Inr (), [(0, 0) \<mapsto> [(Buy, 2), (Sell, 127 / 100), (Hold, 3)]]) \<and>
   update_q default_config (0, 0) Hold 1 [(0, 0) \<mapsto> [(Buy, 2), (Sell, 1), (Hold, 3)]] =
     (Inr (), [(0, 0) \<mapsto> [(Buy, 2), (Sell, 1), (Hold, 307 / 100)]])"
proof -
  have c1: "complete_table initial_q_table"
    by (simp add: complete_table_def initial_q_table_def)
  have c2: "complete_table [(0, 0) \<mapsto> [(Buy, 2), (Sell, 1), (Hold, 3)]]"
    by (simp add: complete_table_def complete_row_def actions_def)
  show ?thesis
    using update_q_formula [OF c1, of "(0, 0)" Buy default_config 1]
      update_q_formula [OF c2, of "(0, 0)" Sell default_config 1]
      update_q_formula [OF c2, of "(0, 0)" Hold default_config 1]
    by (auto simp: ensure_row_def zero_row_def actions_def initial_q_table_def
        default_config_def)
qed



text \<open>
  C3. For a state with no row, whatever \<open>epsilon\<close> and the draws are,
  \<^verbatim>\<open>choose_action\<close> raises nothing: it takes the random branch, never reads the
  missing row, and returns one of the three actions.
\<close>

theorem choose_action_absent:
  assumes "q state = None"
  shows "\<exists>a. choose_action cfg u k state q = (Inr a, q) \<and> a = actions ! (k mod 3) \<and>
    a \<in> {Buy, Sell, Hold}"
proof -
  have "k mod 3 = 0 \<or> k mod 3 = 1 \<or> k mod 3 = 2"
    by linarith
  then have "actions ! (k mod 3) \<in> {Buy, Sell, Hold}"
    by (auto simp: actions_def)
  then show ?thesis
    using assms by (simp add: choose_action_def random_choice_def domIff actions_def)
qed

theorem choose_action_absent_witness:
  "choose_action default_config (1 / 2) 4 (0, 0) initial_q_table = (Inr Sell, initial_q_table)"
proof -
  have "initial_q_table (0, 0) = None"
    by (simp add: initial_q_table_def)
  from choose_action_absent [where q = initial_q_table and state = "(0, 0)"
      and cfg = default_config and u = "1 / 2" and k = 4, OF this]
  show ?thesis
    by (simp add: actions_def)
qed

text \<open>
  C4, as the source has it. A call of \<^verbatim>\<open>update_q\<close> on a state with no row leaves
  a row for it with exactly the keys Buy, Sell, Hold, the updated action at
  \<open>alpha * reward\<close> and the two others at 0. A call of \<^verbatim>\<open>choose_action\<close> on
  such a state leaves it without a row.
\<close>

theorem update_q_creates_row:
  assumes "q state = None"
  shows "update_q cfg state a reward q =
      (Inr (), q(state \<mapsto> dict_set zero_row a (alpha cfg * reward))) \<and>
    map fst (dict_set zero_row a (alpha cfg * reward)) = [Buy, Sell, Hold] \<and>
    dict_get (dict_set zero_row a (alpha cfg * reward)) a = Inr (alpha cfg * reward) \<and>
    (\<forall>a'. a' \<noteq> a \<longrightarrow> dict_get (dict_set zero_row a (alpha cfg * reward)) a' = Inr 0) \<and>
    snd (choose_action cfg u k state q) state = None"
proof -
  have e: "ensure_row state q state = Some [(Buy, 0), (Sell, 0), (Hold, 0)]"
    using assms by (simp add: ensure_row_def domIff zero_row_def actions_def)
  have z: "zero_row = [(Buy, 0), (Sell, 0), (Hold, 0)]"
    by (simp add: zero_row_def actions_def)
  have "update_q cfg state a reward q =
      (Inr (), q(state \<mapsto> dict_set zero_row a (alpha cfg * reward)))"
    unfolding update_q_on_row [OF e] z by (cases a) simp_all
  moreover have "map fst (dict_set zero_row a v) = [Buy, Sell, Hold]" for v
    unfolding z by (cases a) simp_all
  moreover have "dict_get (dict_set zero_row a v) a = Inr v" for v
    unfolding z by (cases a) simp_all
  moreover have "a' \<noteq> a \<Longrightarrow> dict_get (dict_set zero_row a v) a' = Inr 0" for v a'
    unfolding z by (cases a; cases a') simp_all
  moreover have "snd (choose_action cfg u k state q) state = None"
    using assms by (simp add: choose_action_def split: option.splits)
  ultimately show ?thesis
    by simp
qed

theorem update_q_creates_row_witness:
  "update_q default_config (1, 2) Hold 5 initial_q_table =
     (Inr (), [(1, 2) \<mapsto> [(Buy, 0), (Sell, 0), (Hold, 1 / 2)]])"
proof -
  have "initial_q_table (1, 2) = None"
    by (simp add: initial_q_table_def)
  from update_q_creates_row [where q = initial_q_table and state = "(1, 2)"
      and cfg = default_config and a = Hold and reward = 5, OF this]
  show ?thesis
    by (simp add: zero_row_def actions_def default_config_def initial_q_table_def)
qed

text \<open>
  C4 as stated fails for \<^verbatim>\<open>choose_action\<close>: after a call on a state absent from
  the empty table, the table still has no row for that state.
\<close>

theorem choose_action_creates_no_row:
  "snd (choose_action default_config (1 / 2) 0 (0, 0) initial_q_table) (0, 0) = None"
  by (simp add: choose_action_def initial_q_table_def)

text \<open>
  C5. \<^verbatim>\<open>choose_action\<close> leaves the table as it was, for every table, state,
  configuration and draw, whether it returns an action or raises; in particular
  it creates no row.
\<close>

theorem choose_action_table_unchanged: "snd (choose_action cfg u k state q) = q"
  by (simp add: choose_action_def split: option.splits)

text \<open>
  C6. \<^verbatim>\<open>get_state\<close> is defined on every pair of numbers, with no check of their
  range, and returns the pair of the score rounded to one decimal place and the
  price change rounded to two: the first component is \<open>i / 10\<close> for the integer
  \<open>i\<close> nearest to ten times the score, the second \<open>j / 100\<close> for the integer \<open>j\<close>
  nearest to a hundred times the price change, a tie going to the even integer.
  It reads and writes no state, so equal arguments give equal keys.
\<close>

theorem get_state_rounds:
  "\<exists>i j. get_state score price_change = (of_int i / 10, of_int j / 100) \<and>
     get_state score price_change = (py_round score 1, py_round price_change 2) \<and>
     \<bar>of_int i - score * 10\<bar> \<le> 1 / 2 \<and>
     (\<bar>of_int i - score * 10\<bar> = 1 / 2 \<longrightarrow> even i) \<and>
     \<bar>of_int j - price_change * 100\<bar> \<le> 1 / 2 \<and>
     (\<bar>of_int j - price_change * 100\<bar> = 1 / 2 \<longrightarrow> even j) \<and>
     (\<forall>score' price_change'. score' = score \<and> price_change' = price_change \<longrightarrow>
        get_state score' price_change' = get_state score price_change)"
  using round_half_even_close [of "score * 10"] round_half_even_tie [of "score * 10"]
    round_half_even_close [of "price_change * 100"] round_half_even_tie [of "price_change * 100"]
  by (intro exI [of _ "round_half_even (score * 10)"]
      exI [of _ "round_half_even (price_change * 100)"])
    (simp add: get_state_def py_round_def)

theorem get_state_rounds_witness:
  "get_state (1 / 4) (3 / 8) = (2 / 10, 38 / 100) \<and>
   get_state (- 3 / 4) (5 / 8) = (- 8 / 10, 62 / 100)"
  using get_state_rounds [of "1 / 4" "3 / 8"] get_state_rounds [of "- 3 / 4" "5 / 8"]
  by (simp add: get_state_def py_round_def round_half_even_def Let_def)

text \<open>
  C7, as the source computes it. The doubles 0.42 and 0.0137 give the key
  (0.4, 0.01). On the empty table, with \<open>epsilon = 0\<close>, \<^verbatim>\<open>choose_action\<close> on that
  key raises nothing and returns a random action. \<^verbatim>\<open>update_q\<close> on that key with
  Buy and the reward 0.0137, under the defaults \<open>alpha = 0.1\<close> and \<open>gamma = 0.9\<close>,
  leaves Sell = 0 and Hold = 0 and stores for Buy the binary64 product
  \<open>0.1 * 0.0137\<close>, the double \<open>6318009845245522 * 2 ^ - 62\<close>, which Python prints
  as 0.0013700000000000001. The double the literal 0.00137 denotes is the next
  one below, \<open>6318009845245521 * 2 ^ - 62\<close>; the stored value is within
  \<open>2 ^ - 61\<close> of the real number 0.00137.
\<close>

theorem end_to_end_binary64:
  "b64_of_frac 42 100 = Fin 7566047373982433 (- 54) \<and>
   b64_of_frac 137 10000 = Fin 7897512306556902 (- 59) \<and>
   get_state (dyadic 7566047373982433 (- 54)) (dyadic 7897512306556902 (- 59)) =
     (4 / 10, 1 / 100) \<and>
   choose_action (default_config\<lparr>epsilon := 0\<rparr>) u k (4 / 10, 1 / 100) initial_q_table =
     (Inr (actions ! (k mod 3)), initial_q_table) \<and>
   actions ! (k mod 3) \<in> {Buy, Sell, Hold} \<and>
   update_q_b64 default_b64_config (4 / 10, 1 / 100) Buy (b64_of_frac 137 10000) Map.empty =
     (Inr (), [(4 / 10, 1 / 100) \<mapsto> [(Buy, Fin 6318009845245522 (- 62)),
        (Sell, Fin 0 (- 1074)), (Hold, Fin 0 (- 1074))]]) \<and>
   b64_mul (b64_of_frac 1 10) (b64_of_frac 137 10000) = Fin 6318009845245522 (- 62) \<and>
   b64_of_frac 137 100000 = Fin 6318009845245521 (- 62) \<and>
   \<bar>dyadic 6318009845245522 (- 62) - 137 / 100000\<bar> < 1 / 2 ^ 61"
proof -
  have g: "get_state (dyadic 7566047373982433 (- 54)) (dyadic 7897512306556902 (- 59)) =
      (4 / 10, 1 / 100)"
    by (simp add: get_state_def py_round_def round_half_even_def dyadic_def Let_def)
  have c: "choose_action (default_config\<lparr>epsilon := 0\<rparr>) u k (4 / 10, 1 / 100)
      initial_q_table = (Inr (actions ! (k mod 3)), initial_q_table)"
    by (simp add: choose_action_def random_choice_def initial_q_table_def actions_def)
  have "k mod 3 = 0 \<or> k mod 3 = 1 \<or> k mod 3 = 2"
    by linarith
  then have m: "actions ! (k mod 3) \<in> {Buy, Sell, Hold}"
    by (auto simp: actions_def)
  have d: "\<bar>dyadic 6318009845245522 (- 62) - 137 / 100000\<bar> < 1 / 2 ^ 61"
    by (simp add: dyadic_def)
  have pr: "b64_mul (b64_of_frac 1 10) (b64_of_frac 137 10000) = Fin 6318009845245522 (- 62)"
    unfolding lit_alpha lit_reward by (rule product)
  show ?thesis
    using lit_score lit_reward g c m scenario_update [of "(4 / 10, 1 / 100)"] pr lit_claimed d
    by (intro conjI)
qed

text \<open>
  C7 as stated fails: the row \<^verbatim>\<open>update_q\<close> leaves is not the row with
  Buy equal to the double 0.00137.
\<close>

theorem stored_value_not_claimed:
  "snd (update_q_b64 default_b64_config (4 / 10, 1 / 100) Buy (b64_of_frac 137 10000)
       Map.empty) (4 / 10, 1 / 100) \<noteq>
   Some [(Buy, b64_of_frac 137 100000), (Sell, Fin 0 (- 1074)), (Hold, Fin 0 (- 1074))]"
  unfolding scenario_update lit_claimed by simp

text \<open>
  C8, as the source computes it. With \<open>alpha = 0\<close>, on a well-formed table, a
  sequence of calls of \<^verbatim>\<open>update_q\<close> in each of which
  \<^verbatim>\<open>reward + gamma * future - old\<close> is finite runs to its end without an
  exception and changes no value: every row of the table before the calls is the
  same row after them, and a state that had no row has none or the row of three
  zeros.
\<close>

theorem zero_alpha_no_change_b64:
  assumes "alpha_b64 cfg = Fin 0 (- 1074)" and "b64_table_ok q" and "calls_finite cfg calls q"
  shows "\<exists>q'. update_q_b64_calls cfg calls q = (Inr (), q') \<and>
      (\<forall>s r. q s = Some r \<longrightarrow> q' s = Some r) \<and>
      (\<forall>s. q s = None \<longrightarrow> q' s = None \<or> q' s = Some zero_row_b64)"
  using assms(2,3)
proof (induction calls arbitrary: q)
  case Nil
  show ?case by simp
next
  case (Cons c calls)
  obtain s a reward where c: "c = (s, a, reward)"
    by (cases c) auto
  from Cons.prems(2) have fin: "call_finite cfg s a reward q"
    and rest: "calls_finite cfg calls (snd (update_q_b64 cfg s a reward q))"
    by (simp_all add: c)
  have u: "update_q_b64 cfg s a reward q = (Inr (), ensure_row_b64 s q)"
    using assms(1) Cons.prems(1) fin by (rule update_q_b64_alpha_zero)
  have ok: "b64_table_ok (ensure_row_b64 s q)"
    using Cons.prems(1) by (rule b64_table_ok_ensure)
  from rest have "calls_finite cfg calls (ensure_row_b64 s q)"
    by (simp add: u)
  from Cons.IH [OF ok this] obtain q' where
    r: "update_q_b64_calls cfg calls (ensure_row_b64 s q) = (Inr (), q')"
    and k: "\<forall>t r. ensure_row_b64 s q t = Some r \<longrightarrow> q' t = Some r"
    and n: "\<forall>t. ensure_row_b64 s q t = None \<longrightarrow> q' t = None \<or> q' t = Some zero_row_b64"
    by blast
  have "q' t = Some r" if "q t = Some r" for t r
    using that k [rule_format, of t r] ensure_row_b64_keeps [of q t r s] by simp
  moreover have "q' t = None \<or> q' t = Some zero_row_b64" if "q t = None" for t
    using that k [rule_format, of t zero_row_b64] n [rule_format, of t]
      ensure_row_b64_fresh [of q t s]
    by auto
  ultimately show ?case
    using r by (simp add: c u)
qed

theorem zero_alpha_no_change_b64_witness:
  "update_q_b64_calls \<lparr>alpha_b64 = Fin 0 (- 1074), gamma_b64 = b64_of_frac 9 10\<rparr>
      [((0, 0), Buy, Fin 0 (- 1074)), ((1, 1), Hold, Fin 4503599627370496 (- 52))]
      [(0, 0) \<mapsto> [(Buy, Fin 4503599627370496 (- 52)), (Sell, Fin 0 (- 1074)),
         (Hold, Fin 0 (- 1074))]] =
     (Inr (),
      [(0, 0) \<mapsto> [(Buy, Fin 4503599627370496 (- 52)), (Sell, Fin 0 (- 1074)),
         (Hold, Fin 0 (- 1074))],
       (1, 1) \<mapsto> [(Buy, Fin 0 (- 1074)), (Sell, Fin 0 (- 1074)), (Hold, Fin 0 (- 1074))]])"
proof -
  define cfg where
    "cfg = \<lparr>alpha_b64 = Fin 0 (- 1074), gamma_b64 = Fin 8106479329266893 (- 53)\<rparr>"
  define q :: b64_table where
    "q = [(0, 0) \<mapsto> [(Buy, Fin 4503599627370496 (- 52)), (Sell, Fin 0 (- 1074)),
       (Hold, Fin 0 (- 1074))]]"
  have a: "alpha_b64 cfg = Fin 0 (- 1074)"
    by (simp add: cfg_def)
  have ok: "b64_table_ok q"
    by (simp add: b64_table_ok_def q_def actions_def is_b64_def)
  have one: "is_b64 4503599627370496 (- 52)" and g: "is_b64 8106479329266893 (- 53)"
    by (simp_all add: is_b64_def)
  have t1: "td_error_b64 cfg (Fin 4503599627370496 (- 52)) (Fin 0 (- 1074))
      (Fin 4503599627370496 (- 52)) = Fin (- 7205759403792792) (- 56)"
    unfolding td_error_b64_def cfg_def b64_config.simps gamma_one b64_zero_add [OF g]
    by (rule gamma_minus_one)
  have f1: "call_finite cfg (0, 0) Buy (Fin 0 (- 1074)) q"
    unfolding call_finite_def
    by (simp add: ensure_row_b64_def q_def b64_py_max_def t1 del: b64_add.simps b64_mul.simps)
  have u1: "update_q_b64 cfg (0, 0) Buy (Fin 0 (- 1074)) q = (Inr (), q)"
    unfolding update_q_b64_alpha_zero [OF a ok f1] by (simp add: ensure_row_b64_def q_def)
  have t2: "td_error_b64 cfg (Fin 0 (- 1074)) (Fin 4503599627370496 (- 52)) (Fin 0 (- 1074)) =
      Fin 4503599627370496 (- 52)"
    unfolding td_error_b64_def b64_mul_fin_zero cfg_def b64_config.simps b64_add_zero [OF one]
    by (rule b64_sub_zero [OF one])
  have f2: "call_finite cfg (1, 1) Hold (Fin 4503599627370496 (- 52)) q"
    unfolding call_finite_def
    by (simp add: ensure_row_b64_def q_def zero_row_b64_def b64_zero_def actions_def
        b64_py_max_def t2 del: b64_add.simps b64_mul.simps)
  have fin: "calls_finite cfg
      [((0, 0), Buy, Fin 0 (- 1074)), ((1, 1), Hold, Fin 4503599627370496 (- 52))] q"
    by (simp add: f1 u1 f2)
  from zero_alpha_no_change_b64 [OF a ok fin] obtain q' where
    r: "update_q_b64_calls cfg
      [((0, 0), Buy, Fin 0 (- 1074)), ((1, 1), Hold, Fin 4503599627370496 (- 52))] q =
      (Inr (), q')"
    by blast
  have "update_q_b64_calls cfg
      [((0, 0), Buy, Fin 0 (- 1074)), ((1, 1), Hold, Fin 4503599627370496 (- 52))] q =
      (Inr (), ensure_row_b64 (1, 1) q)"
    by (simp add: u1 update_q_b64_alpha_zero [OF a ok f2])
  with r show ?thesis
    unfolding lit_gamma cfg_def [symmetric] q_def [symmetric]
    by (simp add: ensure_row_b64_def q_def zero_row_b64_def b64_zero_def actions_def)
qed

text \<open>
  C8 as stated fails when line 34 overflows. With \<open>alpha = 0\<close> and
  \<open>gamma = 0.9\<close>, the row Buy = 1.7e308, Sell = 0, Hold = 0 and the reward 1e308
  are all finite; \<^verbatim>\<open>reward + gamma * future\<close> is infinite, zero times it is NaN,
  and the call replaces the value of Buy by NaN.
\<close>

theorem zero_alpha_overflow_changes_value:
  "update_q_b64 \<lparr>alpha_b64 = Fin 0 (- 1074), gamma_b64 = b64_of_frac 9 10\<rparr> (0, 0) Buy
      (b64_of_frac (10 ^ 308) 1)
      [(0, 0) \<mapsto> [(Buy, b64_of_frac (17 * 10 ^ 307) 1), (Sell, Fin 0 (- 1074)),
         (Hold, Fin 0 (- 1074))]] =
     (Inr (), [(0, 0) \<mapsto> [(Buy, NaN), (Sell, Fin 0 (- 1074)), (Hold, Fin 0 (- 1074))]]) \<and>
   b64_of_frac (17 * 10 ^ 307) 1 = Fin 8517715530038134 971 \<and>
   b64_of_frac (10 ^ 308) 1 = Fin 5010420900022432 971 \<and>
   dict_get [(Buy, NaN), (Sell, Fin 0 (- 1074)), (Hold, Fin 0 (- 1074))] Buy \<noteq>
     dict_get [(Buy, b64_of_frac (17 * 10 ^ 307) 1), (Sell, Fin 0 (- 1074)),
        (Hold, Fin 0 (- 1074))] Buy"
proof -
  have mx: "b64_py_max [Fin 8517715530038134 971, Fin 0 (- 1074), Fin 0 (- 1074)] =
      Inr (Fin 8517715530038134 971)"
    by (simp add: b64_py_max_def)
  have new: "b64_add (Fin 8517715530038134 971)
      (b64_mul (Fin 0 (- 1074))
        (td_error_b64 \<lparr>alpha_b64 = Fin 0 (- 1074), gamma_b64 = Fin 8106479329266893 (- 53)\<rparr>
          (Fin 8517715530038134 971) (Fin 5010420900022432 971)
          (Fin 8517715530038134 971))) = NaN"
    unfolding td_error_b64_def b64_config.simps gamma_future reward_plus_overflows
    by (simp add: b64_sub_def)
  have "update_q_b64 \<lparr>alpha_b64 = Fin 0 (- 1074), gamma_b64 = Fin 8106479329266893 (- 53)\<rparr>
      (0, 0) Buy (Fin 5010420900022432 971)
      [(0, 0) \<mapsto> [(Buy, Fin 8517715530038134 971), (Sell, Fin 0 (- 1074)),
         (Hold, Fin 0 (- 1074))]] =
     (Inr (), [(0, 0) \<mapsto> [(Buy, NaN), (Sell, Fin 0 (- 1074)), (Hold, Fin 0 (- 1074))]])"
    unfolding update_q_b64_def
    by (simp add: ensure_row_b64_def mx new del: b64_add.simps b64_mul.simps b64_max_from.simps)
  then show ?thesis
    unfolding lit_gamma lit_table_value lit_big_reward by simp
qed

text \<open>
  C9. The reward the callers compute is the price change for Buy, its negation
  for Sell and 0 for Hold, and it is this value, for the action
  \<^verbatim>\<open>choose_action\<close> returned, that they pass to \<^verbatim>\<open>update_q\<close>.
\<close>

theorem reward_at_caller:
  "reward_of Buy price_change = price_change \<and>
   reward_of Sell price_change = - price_change \<and>
   reward_of Hold price_change = 0 \<and>
   policy_step cfg u k score price_change q =
     (case choose_action cfg u k (get_state score price_change) q of
        (Inl e, q1) \<Rightarrow> (Inl e, q1)
      | (Inr act, q1) \<Rightarrow>
          (case update_q cfg (get_state score price_change) act
                  (case act of Buy \<Rightarrow> price_change | Sell \<Rightarrow> - price_change | Hold \<Rightarrow> 0) q1 of
             (Inl e, q2) \<Rightarrow> (Inl e, q2)
           | (Inr _, q2) \<Rightarrow> (Inr act, q2)))"
proof -
  have "reward_of act price_change =
      (case act of Buy \<Rightarrow> price_change | Sell \<Rightarrow> - price_change | Hold \<Rightarrow> 0)" for act
    by (cases act) (simp_all add: reward_of_def)
  then show ?thesis
    by (simp add: policy_step_def Let_def split: prod.splits sum.splits)
qed

text \<open>
  C10. If the state has no row, or a complete row with the three values 0, then
  \<^verbatim>\<open>update_q\<close> with reward 0, for every action, \<open>alpha\<close> and \<open>gamma\<close>, leaves
  that state with the row of three zeros and every other state as it was; when
  the row was there the table is unchanged.
\<close>

theorem zero_fixed_point:
  assumes "q s = None \<or> (\<exists>r. q s = Some r \<and> complete_row r \<and> (\<forall>a'. dict_get r a' = Inr 0))"
  shows "update_q cfg s a 0 q = (Inr (), q(s \<mapsto> zero_row)) \<and>
    (\<forall>a'. dict_get zero_row a' = Inr 0) \<and>
    (\<forall>t. t \<noteq> s \<longrightarrow> (q(s \<mapsto> zero_row)) t = q t) \<and>
    (q s \<noteq> None \<longrightarrow> q(s \<mapsto> zero_row) = q)"
proof -
  have z: "zero_row = [(Buy, 0), (Sell, 0), (Hold, 0)]"
    by (simp add: zero_row_def actions_def)
  have g: "dict_get zero_row a' = Inr 0" for a'
    unfolding z by (cases a') simp_all
  have p: "q s = Some zero_row" if "q s \<noteq> None"
  proof -
    from that assms obtain r where r: "q s = Some r" "complete_row r" "\<forall>a'. dict_get r a' = Inr 0"
      by auto
    from r(2) obtain b sl h where f: "r = [(Buy, b), (Sell, sl), (Hold, h)]"
      by (auto simp: complete_row_iff)
    from r(3) have "dict_get r Buy = Inr 0" "dict_get r Sell = Inr 0" "dict_get r Hold = Inr 0"
      by blast+
    then have "r = zero_row"
      unfolding f z by simp
    with r(1) show ?thesis
      by simp
  qed
  then have e: "ensure_row s q s = Some [(Buy, 0), (Sell, 0), (Hold, 0)]"
    unfolding ensure_row_lookup z by (cases "q s") (simp_all add: z)
  have "update_q cfg s a 0 q = (Inr (), q(s \<mapsto> zero_row))"
    unfolding update_q_on_row [OF e] z by (cases a) simp_all
  moreover have "q s \<noteq> None \<longrightarrow> q(s \<mapsto> zero_row) = q"
    using p by (auto simp: map_upd_triv)
  ultimately show ?thesis
    using g by simp
qed

theorem zero_fixed_point_witness:
  "update_q \<lparr>alpha = 7, gamma = - 3, epsilon = 1\<rparr> (1, 2) Sell 0 initial_q_table =
     (Inr (), [(1, 2) \<mapsto> [(Buy, 0), (Sell, 0), (Hold, 0)]]) \<and>
   update_q \<lparr>alpha = 7, gamma = - 3, epsilon = 1\<rparr> (1, 2) Hold 0
       [(1, 2) \<mapsto> [(Buy, 0), (Sell, 0), (Hold, 0)]] =
     (Inr (), [(1, 2) \<mapsto> [(Buy, 0), (Sell, 0), (Hold, 0)]])"
proof -
  have h1: "initial_q_table (1, 2) = None \<or>
      (\<exists>r. initial_q_table (1, 2) = Some r \<and> complete_row r \<and> (\<forall>a'. dict_get r a' = Inr 0))"
    by (simp add: initial_q_table_def)
  have "dict_get [(Buy, 0 :: real), (Sell, 0), (Hold, 0)] a' = Inr 0" for a'
    by (cases a') simp_all
  then have h2: "[(1 :: real, 2 :: real) \<mapsto> [(Buy, 0 :: real), (Sell, 0), (Hold, 0)]] (1, 2) = None \<or>
      (\<exists>r. [(1 :: real, 2 :: real) \<mapsto> [(Buy, 0 :: real), (Sell, 0), (Hold, 0)]] (1, 2) = Some r \<and>
         complete_row r \<and> (\<forall>a'. dict_get r a' = Inr 0))"
    by (simp add: complete_row_def actions_def)
  show ?thesis
    using
      zero_fixed_point [where q = initial_q_table and s = "(1, 2)" and a = Sell
        and cfg = "\<lparr>alpha = 7, gamma = - 3, epsilon = 1\<rparr>", OF h1]
      zero_fixed_point [where q = "[(1, 2) \<mapsto> [(Buy, 0), (Sell, 0), (Hold, 0)]]"
        and s = "(1, 2)" and a = Hold
        and cfg = "\<lparr>alpha = 7, gamma = - 3, epsilon = 1\<rparr>", OF h2]
    by (simp add: zero_row_def actions_def initial_q_table_def)
qed

end
